theory Spec2Isabelle
  imports Main
begin

section \<open>Privileged scheme registration (atom\_api\_protocol.cc, lines 36--105 and 251--263)\<close>

subsection \<open>Values handed over by the scripting bridge\<close>

text \<open>
  A script value, reduced to what this file reads from one. A function carries the
  identity \<open>'c\<close> of the callback it converts to. Functions and other objects carry their
  boolean properties: \<open>d k = Some b\<close> when \<open>mate::Dictionary::Get(k, &flag)\<close> stores \<open>b\<close>
  and returns true, \<open>None\<close> when the property is absent or is not a boolean, in which case
  \<open>Get\<close> returns false and leaves \<open>flag\<close> alone.
\<close>

datatype 'c v8_value =
    V8Function 'c "string \<rightharpoonup> bool"
  | V8Object "string \<rightharpoonup> bool"
  | V8Primitive

text \<open>
  \<open>mate::Arguments\<close> is modelled by the list of the arguments that follow the ones the
  bridge has already converted into the typed parameters (\<open>schemes\<close>, \<open>scheme\<close>).
  \<open>GetNext\<close> converts the first of them; it fails when there is none or when the value
  does not convert (an object for a \<open>mate::Dictionary\<close>, a function for a callback).
\<close>

fun GetNext_Dictionary :: "'c v8_value list \<Rightarrow> (string \<rightharpoonup> bool) option" where
  "GetNext_Dictionary [] = None"
| "GetNext_Dictionary (V8Function c d # rest) = Some d"
| "GetNext_Dictionary (V8Object d # rest) = Some d"
| "GetNext_Dictionary (V8Primitive # rest) = None"

fun GetNext_Callback :: "'c v8_value list \<Rightarrow> 'c option" where
  "GetNext_Callback [] = None"
| "GetNext_Callback (V8Function c d # rest) = Some c"
| "GetNext_Callback (V8Object d # rest) = None"
| "GetNext_Callback (V8Primitive # rest) = None"

text \<open>\<open>options.Get(key, &flag)\<close>: the value of \<open>flag\<close> afterwards.\<close>

definition Get :: "(string \<rightharpoonup> bool) \<Rightarrow> string \<Rightarrow> bool \<Rightarrow> bool" where
  "Get options key flag = (case options key of Some b \<Rightarrow> b | None \<Rightarrow> flag)"

subsection \<open>Process-wide state\<close>

text \<open>
  The URL parser and the child-process security policy are collaborators outside this
  file; the model records the calls made to them, in order.
  \<open>AddStandardScheme\<close> is always called with \<open>url::SCHEME_WITH_HOST\<close>.
\<close>

datatype collaborator_call =
    AddStandardScheme string
  | RegisterWebSafeScheme string
  | AddSecureScheme string
  | AddCSPBypassingScheme string
  | AddCORSEnabledScheme string

record world =
  is_ready :: bool
  g_standard_schemes :: "string list"
  calls :: "collaborator_call list"
  custom_service_worker_schemes :: "string list"
  command_line :: "(string \<times> string) list"

text \<open>
  \<open>is_ready\<close> is \<open>atom::Browser::Get()->is_ready()\<close>. \<open>command_line\<close> lists the switches
  of \<open>base::CommandLine::ForCurrentProcess()\<close> as (name, value), in the order they were
  appended.
\<close>

definition AppendSwitchASCII :: "string \<Rightarrow> string \<Rightarrow> world \<Rightarrow> world" where
  "AppendSwitchASCII name val w = w\<lparr>command_line := command_line w @ [(name, val)]\<rparr>"

text \<open>
  Modelled from the spec: \<open>AtomBrowserClient::SetCustomServiceWorkerSchemes\<close> is defined
  in atom/browser/atom\_browser\_client.cc, which is not among the sources. The spec (4.A):
  "publish the whole input sequence as the set of service-worker-capable schemes
  (overwrite semantics)".
\<close>

definition SetCustomServiceWorkerSchemes :: "string list \<Rightarrow> world \<Rightarrow> world" where
  "SetCustomServiceWorkerSchemes schemes w = w\<lparr>custom_service_worker_schemes := schemes\<rparr>"

text \<open>
  The switch names \<open>atom::switches::k...Schemes\<close> are defined in
  atom/common/options\_switches.cc, which is not among the sources; the spec (4.B) gives
  the six names.
\<close>

text \<open>Modelled from the spec: \<open>atom::switches::kStandardSchemes\<close>, "standard-schemes".\<close>

definition kStandardSchemes :: string where
  "kStandardSchemes = ''standard-schemes''"

text \<open>Modelled from the spec: \<open>atom::switches::kSecureSchemes\<close>, "secure-schemes".\<close>

definition kSecureSchemes :: string where
  "kSecureSchemes = ''secure-schemes''"

text \<open>Modelled from the spec: \<open>atom::switches::kBypassCSPSchemes\<close>, "bypass-csp-schemes".\<close>

definition kBypassCSPSchemes :: string where
  "kBypassCSPSchemes = ''bypass-csp-schemes''"

text \<open>Modelled from the spec: \<open>atom::switches::kCORSSchemes\<close>, "cors-schemes".\<close>

definition kCORSSchemes :: string where
  "kCORSSchemes = ''cors-schemes''"

text \<open>Modelled from the spec: \<open>atom::switches::kFetchSchemes\<close>, "fetch-schemes".\<close>

definition kFetchSchemes :: string where
  "kFetchSchemes = ''fetch-schemes''"

text \<open>Modelled from the spec: \<open>atom::switches::kServiceWorkerSchemes\<close>, "service-worker-schemes".\<close>

definition kServiceWorkerSchemes :: string where
  "kServiceWorkerSchemes = ''service-worker-schemes''"

text \<open>\<open>base::JoinString(parts, separator)\<close>.\<close>

fun JoinString :: "string list \<Rightarrow> string \<Rightarrow> string" where
  "JoinString [] sep = []"
| "JoinString [x] sep = x"
| "JoinString (x # y # ys) sep = x @ sep @ JoinString (y # ys) sep"

subsection \<open>The set of switches\<close>

text \<open>
  \<open>std::unordered_set<std::string> switches\<close>: the elements without repetition.
  \<open>insert\<close> adds an element that is not there yet. The order in which the set is
  iterated is not fixed by the language; it is given by the hash table. The model takes
  the position \<open>bucket\<close> the table gives each element as a parameter and iterates in that
  order, so that a statement proved for every \<open>bucket\<close> holds for every iteration order.
\<close>

definition unordered_set_insert :: "string \<Rightarrow> string list \<Rightarrow> string list" where
  "unordered_set_insert x s = (if x \<in> set s then s else s @ [x])"

definition unordered_set_iterate :: "(string \<Rightarrow> nat) \<Rightarrow> string list \<Rightarrow> string list" where
  "unordered_set_iterate bucket s = sort_key bucket s"

subsection \<open>RegisterSchemesAsPrivileged (lines 47--105)\<close>

record privileges =
  standard :: bool
  secure :: bool
  bypassCSP :: bool
  allowServiceWorkers :: bool
  supportFetchAPI :: bool
  corsEnabled :: bool

text \<open>
  Lines 49--65. \<open>args->Length()\<close> counts the \<open>schemes\<close> argument too, so it is 2 exactly
  when one argument follows \<open>schemes\<close>.
\<close>

definition read_options :: "'c v8_value list \<Rightarrow> privileges" where
  "read_options args =
     (let defaults = \<lparr>standard = True, secure = True, bypassCSP = True,
                      allowServiceWorkers = True, supportFetchAPI = True,
                      corsEnabled = True\<rparr>
      in if Suc (length args) = 2 then
           (case GetNext_Dictionary args of
              Some options \<Rightarrow>
                \<lparr>standard = Get options ''standard'' (standard defaults),
                 secure = Get options ''secure'' (secure defaults),
                 bypassCSP = Get options ''bypassCSP'' (bypassCSP defaults),
                 allowServiceWorkers =
                   Get options ''allowServiceWorkers'' (allowServiceWorkers defaults),
                 supportFetchAPI = Get options ''supportFetchAPI'' (supportFetchAPI defaults),
                 corsEnabled = Get options ''corsEnabled'' (corsEnabled defaults)\<rparr>
            | None \<Rightarrow> defaults)
         else defaults)"

text \<open>Lines 70--92: the body of the loop over \<open>schemes\<close>, for one \<open>scheme\<close>.\<close>

definition register_scheme ::
  "privileges \<Rightarrow> string list \<Rightarrow> string \<Rightarrow> world \<times> string list \<Rightarrow> world \<times> string list"
where
  "register_scheme p schemes scheme st =
     (let (w, switches) = st;
          (w, switches) =
            (if standard p then
               (w\<lparr>g_standard_schemes := schemes,
                  calls := calls w @ [AddStandardScheme scheme, RegisterWebSafeScheme scheme]\<rparr>,
                unordered_set_insert kStandardSchemes switches)
             else (w, switches));
          (w, switches) =
            (if secure p then
               (w\<lparr>calls := calls w @ [AddSecureScheme scheme]\<rparr>,
                unordered_set_insert kSecureSchemes switches)
             else (w, switches));
          (w, switches) =
            (if bypassCSP p then
               (w\<lparr>calls := calls w @ [AddCSPBypassingScheme scheme]\<rparr>,
                unordered_set_insert kBypassCSPSchemes switches)
             else (w, switches));
          (w, switches) =
            (if corsEnabled p then
               (w\<lparr>calls := calls w @ [AddCORSEnabledScheme scheme]\<rparr>,
                unordered_set_insert kCORSSchemes switches)
             else (w, switches));
          (w, switches) =
            (if supportFetchAPI p then (w, unordered_set_insert kFetchSchemes switches)
             else (w, switches))
      in (w, switches))"

definition RegisterSchemesAsPrivileged ::
  "(string \<Rightarrow> nat) \<Rightarrow> string list \<Rightarrow> 'c v8_value list \<Rightarrow> world \<Rightarrow> world"
where
  "RegisterSchemesAsPrivileged bucket schemes args w0 =
     (let p = read_options args;
          (w, switches) = fold (register_scheme p schemes) schemes (w0, []);
          (w, switches) =
            (if allowServiceWorkers p then
               (SetCustomServiceWorkerSchemes schemes w,
                unordered_set_insert kServiceWorkerSchemes switches)
             else (w, switches))
      in fold (\<lambda>switch. AppendSwitchASCII switch (JoinString schemes '',''))
           (unordered_set_iterate bucket switches) w)"

text \<open>\<open>GetStandardSchemes\<close> (lines 43--45).\<close>

definition GetStandardSchemes :: "world \<Rightarrow> string list" where
  "GetStandardSchemes w = g_standard_schemes w"

text \<open>
  The function bound to \<open>registerSchemesAsPrivileged\<close> (lines 253--263, anonymous
  namespace). The first component of the result is the error thrown into the script, if
  any.
\<close>

definition RegisterSchemesAsPrivileged_binding ::
  "(string \<Rightarrow> nat) \<Rightarrow> string list \<Rightarrow> 'c v8_value list \<Rightarrow> world \<Rightarrow> string option \<times> world"
where
  "RegisterSchemesAsPrivileged_binding bucket schemes args w =
     (if is_ready w then
        (Some ''protocol.registerSchemesAsPrivileged should be called before app is ready'', w)
      else (None, RegisterSchemesAsPrivileged bucket schemes args w))"

text \<open>
  The six privilege classes: the option read for each (lines 58--63) with the switch
  inserted for it (lines 74--97).
\<close>

definition privilege_switches :: "(string \<times> string) list" where
  "privilege_switches =
     [(''standard'', kStandardSchemes), (''secure'', kSecureSchemes),
      (''bypassCSP'', kBypassCSPSchemes), (''allowServiceWorkers'', kServiceWorkerSchemes),
      (''supportFetchAPI'', kFetchSchemes), (''corsEnabled'', kCORSSchemes)]"

text \<open>The values of the switches called \<open>name\<close> on the command line, in order.\<close>

definition switch_values :: "string \<Rightarrow> world \<Rightarrow> string list" where
  "switch_values name w = map snd (filter (\<lambda>sw. fst sw = name) (command_line w))"

section \<open>The per-context protocol controller (lines 113--209)\<close>

subsection \<open>The job factory\<close>

text \<open>
  Modelled from the spec: the state of \<open>AtomURLRequestJobFactory\<close>, which is defined in
  atom/browser/net/atom\_url\_request\_job\_factory.cc, not among the sources. The spec
  (4.D, glossary): the factory maps a scheme to the handler registered for it; an
  interception lays an override over a scheme; registration and interception are
  independent of each other; the network stack has built-in handlers for some schemes.
\<close>

record 'h job_factory =
  registered :: "string \<rightharpoonup> 'h"
  overrides :: "string \<rightharpoonup> 'h"
  built_in :: "string \<Rightarrow> bool"

text \<open>
  Modelled from the spec: \<open>HasProtocolHandler(scheme)\<close> (6), whether a handler is
  registered for the scheme.
\<close>

definition HasProtocolHandler :: "'h job_factory \<Rightarrow> string \<Rightarrow> bool" where
  "HasProtocolHandler jf scheme = (registered jf scheme \<noteq> None)"

text \<open>
  Modelled from the spec: \<open>SetProtocolHandler(scheme, handler)\<close> (6); with a null
  handler, \<open>None\<close>, it removes the registration (4.D, "remove a previously registered
  handler").
\<close>

definition SetProtocolHandler :: "'h job_factory \<Rightarrow> string \<Rightarrow> 'h option \<Rightarrow> 'h job_factory" where
  "SetProtocolHandler jf scheme handler = jf\<lparr>registered := (registered jf)(scheme := handler)\<rparr>"

text \<open>
  Modelled from the spec: \<open>IsHandledProtocol(scheme)\<close> (6), "whether any handler
  (registered or built-in) services scheme" (4.D).
\<close>

definition IsHandledProtocol :: "'h job_factory \<Rightarrow> string \<Rightarrow> bool" where
  "IsHandledProtocol jf scheme = (HasProtocolHandler jf scheme \<or> built_in jf scheme)"

text \<open>
  Modelled from the spec: \<open>UninterceptProtocol(scheme)\<close> (6), "remove a prior override.
  Success iff one existed" (4.D). The boolean is the success.
\<close>

definition UninterceptProtocol :: "'h job_factory \<Rightarrow> string \<Rightarrow> bool \<times> 'h job_factory" where
  "UninterceptProtocol jf scheme =
     (if overrides jf scheme = None then (False, jf)
      else (True, jf\<lparr>overrides := (overrides jf)(scheme := None)\<rparr>))"

subsection \<open>Status codes\<close>

text \<open>
  Modelled from the spec: \<open>enum ProtocolError\<close> is declared in
  atom/browser/api/atom\_api\_protocol.h, which is not among the sources. The spec (3)
  lists its enumerators in the order \<open>OK\<close>, \<open>FAIL\<close>, \<open>REGISTERED\<close>, \<open>NOT_REGISTERED\<close>,
  \<open>INTERCEPTED\<close>, \<open>NOT_INTERCEPTED\<close>; an enumeration numbers them from 0. A status is
  an integer, so that values outside the enumeration can be spoken of.
\<close>

type_synonym ProtocolError = int

text \<open>Modelled from the spec: the enumerator \<open>PROTOCOL_OK\<close>.\<close>

definition PROTOCOL_OK :: ProtocolError where
  "PROTOCOL_OK = 0"

text \<open>Modelled from the spec: the enumerator \<open>PROTOCOL_FAIL\<close>.\<close>

definition PROTOCOL_FAIL :: ProtocolError where
  "PROTOCOL_FAIL = 1"

text \<open>Modelled from the spec: the enumerator \<open>PROTOCOL_REGISTERED\<close>.\<close>

definition PROTOCOL_REGISTERED :: ProtocolError where
  "PROTOCOL_REGISTERED = 2"

text \<open>Modelled from the spec: the enumerator \<open>PROTOCOL_NOT_REGISTERED\<close>.\<close>

definition PROTOCOL_NOT_REGISTERED :: ProtocolError where
  "PROTOCOL_NOT_REGISTERED = 3"

text \<open>Modelled from the spec: the enumerator \<open>PROTOCOL_INTERCEPTED\<close>.\<close>

definition PROTOCOL_INTERCEPTED :: ProtocolError where
  "PROTOCOL_INTERCEPTED = 4"

text \<open>Modelled from the spec: the enumerator \<open>PROTOCOL_NOT_INTERCEPTED\<close>.\<close>

definition PROTOCOL_NOT_INTERCEPTED :: ProtocolError where
  "PROTOCOL_NOT_INTERCEPTED = 5"

text \<open>\<open>Protocol::ErrorCodeToString\<close> (lines 194--209).\<close>

definition ErrorCodeToString :: "ProtocolError \<Rightarrow> string" where
  "ErrorCodeToString error =
     (if error = PROTOCOL_FAIL then ''Failed to manipulate protocol factory''
      else if error = PROTOCOL_REGISTERED then ''The scheme has been registered''
      else if error = PROTOCOL_NOT_REGISTERED then ''The scheme has not been registered''
      else if error = PROTOCOL_INTERCEPTED then ''The scheme has been intercepted''
      else if error = PROTOCOL_NOT_INTERCEPTED then ''The scheme has not been intercepted''
      else ''Unexpected error'')"

subsection \<open>Work done on the I/O thread\<close>

text \<open>\<open>Protocol::UnregisterProtocolInIO\<close> (lines 127--135).\<close>

definition UnregisterProtocolInIO ::
  "'h job_factory \<Rightarrow> string \<Rightarrow> ProtocolError \<times> 'h job_factory"
where
  "UnregisterProtocolInIO job_factory scheme =
     (if \<not> HasProtocolHandler job_factory scheme then (PROTOCOL_NOT_REGISTERED, job_factory)
      else (PROTOCOL_OK, SetProtocolHandler job_factory scheme None))"

text \<open>\<open>Protocol::IsProtocolHandledInIO\<close> (lines 149--153).\<close>

definition IsProtocolHandledInIO :: "'h job_factory \<Rightarrow> string \<Rightarrow> bool" where
  "IsProtocolHandledInIO job_factory scheme = IsHandledProtocol job_factory scheme"

text \<open>\<open>Protocol::UninterceptProtocolInIO\<close> (lines 169--175).\<close>

definition UninterceptProtocolInIO ::
  "'h job_factory \<Rightarrow> string \<Rightarrow> ProtocolError \<times> 'h job_factory"
where
  "UninterceptProtocolInIO job_factory scheme =
     (let (removed, job_factory') = UninterceptProtocol job_factory scheme
      in (if removed then PROTOCOL_OK else PROTOCOL_NOT_INTERCEPTED, job_factory'))"

subsection \<open>Reporting completion\<close>

text \<open>
  What a completion callback is run with: \<open>v8::Null\<close>, or \<open>v8::Exception::Error\<close> of a
  message.
\<close>

datatype callback_argument = Null | Error string

text \<open>
  \<open>Protocol::OnIOCompleted\<close> (lines 177--192). A null callback is \<open>None\<close>. The result
  lists the runs of the callback that the function performs.
\<close>

definition OnIOCompleted :: "'c option \<Rightarrow> ProtocolError \<Rightarrow> ('c \<times> callback_argument) list" where
  "OnIOCompleted callback error =
     (case callback of
        None \<Rightarrow> []
      | Some c \<Rightarrow>
          if error = PROTOCOL_OK then [(c, Null)]
          else [(c, Error (ErrorCodeToString error))])"

subsection \<open>The operations of the controller\<close>

text \<open>
  \<open>content::BrowserThread::PostTaskAndReplyWithResult(IO, work, reply)\<close> runs \<open>work\<close> on
  the I/O thread and then \<open>reply\<close>, applied to the result of \<open>work\<close>, on the thread that
  posted it. The operations below are the work followed by the reply, for a controller
  that exists throughout. They return the job factory the work leaves and the callback
  runs the reply performs.
\<close>

text \<open>\<open>Protocol::UnregisterProtocol\<close> (lines 113--124).\<close>

definition UnregisterProtocol ::
  "string \<Rightarrow> 'c v8_value list \<Rightarrow> 'h job_factory
     \<Rightarrow> 'h job_factory \<times> ('c \<times> callback_argument) list"
where
  "UnregisterProtocol scheme args job_factory =
     (let callback = GetNext_Callback args;
          (error, job_factory') = UnregisterProtocolInIO job_factory scheme
      in (job_factory', OnIOCompleted callback error))"

text \<open>\<open>Protocol::IsProtocolHandled\<close> (lines 137--146); the reply is the callback itself.\<close>

definition IsProtocolHandled :: "string \<Rightarrow> 'b \<Rightarrow> 'h job_factory \<Rightarrow> ('b \<times> bool) list" where
  "IsProtocolHandled scheme callback job_factory =
     [(callback, IsProtocolHandledInIO job_factory scheme)]"

text \<open>\<open>Protocol::UninterceptProtocol\<close> (lines 155--166).\<close>

definition Protocol_UninterceptProtocol ::
  "string \<Rightarrow> 'c v8_value list \<Rightarrow> 'h job_factory
     \<Rightarrow> 'h job_factory \<times> ('c \<times> callback_argument) list"
where
  "Protocol_UninterceptProtocol scheme args job_factory =
     (let callback = GetNext_Callback args;
          (error, job_factory') = UninterceptProtocolInIO job_factory scheme
      in (job_factory', OnIOCompleted callback error))"

section \<open>Auxiliary definitions\<close>

text \<open>The switches that one pass through the body of the loop inserts.\<close>

definition loop_switches :: "privileges \<Rightarrow> string set" where
  "loop_switches p =
     (if standard p then {kStandardSchemes} else {}) \<union>
     (if secure p then {kSecureSchemes} else {}) \<union>
     (if bypassCSP p then {kBypassCSPSchemes} else {}) \<union>
     (if corsEnabled p then {kCORSSchemes} else {}) \<union>
     (if supportFetchAPI p then {kFetchSchemes} else {})"

text \<open>The switches in the set when the loop over the set starts (line 102).\<close>

definition final_switches :: "privileges \<Rightarrow> string list \<Rightarrow> string set" where
  "final_switches p schemes =
     (if schemes = [] then {} else loop_switches p) \<union>
     (if allowServiceWorkers p then {kServiceWorkerSchemes} else {})"

text \<open>A process that is not ready yet and in which nothing has been registered.\<close>

definition fresh_world :: world where
  "fresh_world = \<lparr>is_ready = False, g_standard_schemes = [], calls = [],
                    custom_service_worker_schemes = [], command_line = []\<rparr>"

text \<open>
  A job factory with a handler registered for \<open>app\<close>, an override on \<open>https\<close>, and
  built-in handlers for \<open>https\<close> and \<open>file\<close>.
\<close>

definition example_factory :: "nat job_factory" where
  "example_factory =
     \<lparr>registered = [''app'' \<mapsto> 1], overrides = [''https'' \<mapsto> 2],
      built_in = (\<lambda>scheme. scheme = ''https'' \<or> scheme = ''file'')\<rparr>"

section \<open>The loop over the schemes\<close>

lemmas status_codes =
  PROTOCOL_OK_def PROTOCOL_FAIL_def PROTOCOL_REGISTERED_def PROTOCOL_NOT_REGISTERED_def
  PROTOCOL_INTERCEPTED_def PROTOCOL_NOT_INTERCEPTED_def

lemma set_unordered_set_insert: "set (unordered_set_insert x s) = insert x (set s)"
  by (auto simp: unordered_set_insert_def)

lemma distinct_unordered_set_insert: "distinct s \<Longrightarrow> distinct (unordered_set_insert x s)"
  by (simp add: unordered_set_insert_def)

lemma register_scheme_switches:
  "set (snd (register_scheme p schemes scheme (w, sw))) = set sw \<union> loop_switches p"
  by (simp add: register_scheme_def loop_switches_def set_unordered_set_insert)

lemma register_scheme_distinct:
  "distinct sw \<Longrightarrow> distinct (snd (register_scheme p schemes scheme (w, sw)))"
  by (simp add: register_scheme_def distinct_unordered_set_insert)

lemma register_scheme_command_line:
  "command_line (fst (register_scheme p schemes scheme (w, sw))) = command_line w"
  by (simp add: register_scheme_def)

lemma register_scheme_is_ready:
  "is_ready (fst (register_scheme p schemes scheme (w, sw))) = is_ready w"
  by (simp add: register_scheme_def)

lemma register_scheme_standard:
  "g_standard_schemes (fst (register_scheme p schemes scheme (w, sw))) =
     (if standard p then schemes else g_standard_schemes w)"
  by (simp add: register_scheme_def)

lemma fold_register_scheme_switches:
  "distinct sw \<Longrightarrow>
   distinct (snd (fold (register_scheme p schemes) xs (w, sw))) \<and>
   set (snd (fold (register_scheme p schemes) xs (w, sw))) =
     set sw \<union> (if xs = [] then {} else loop_switches p)"
proof (induction xs arbitrary: w sw)
  case Nil
  then show ?case by simp
next
  case (Cons x xs)
  obtain w1 sw1 where step: "register_scheme p schemes x (w, sw) = (w1, sw1)"
    by (cases "register_scheme p schemes x (w, sw)")
  have d1: "distinct sw1"
    using register_scheme_distinct [OF Cons.prems, of p schemes x w] step by simp
  have s1: "set sw1 = set sw \<union> loop_switches p"
    using register_scheme_switches [of p schemes x w sw] step by simp
  show ?case
    using Cons.IH [OF d1, of w1] step s1 by auto
qed

lemma fold_register_scheme_command_line:
  "command_line (fst (fold (register_scheme p schemes) xs (w, sw))) = command_line w"
proof (induction xs arbitrary: w sw)
  case Nil
  then show ?case by simp
next
  case (Cons x xs)
  obtain w1 sw1 where step: "register_scheme p schemes x (w, sw) = (w1, sw1)"
    by (cases "register_scheme p schemes x (w, sw)")
  show ?case
    using Cons.IH [of w1 sw1] register_scheme_command_line [of p schemes x w sw] step by simp
qed

lemma fold_register_scheme_is_ready:
  "is_ready (fst (fold (register_scheme p schemes) xs (w, sw))) = is_ready w"
proof (induction xs arbitrary: w sw)
  case Nil
  then show ?case by simp
next
  case (Cons x xs)
  obtain w1 sw1 where step: "register_scheme p schemes x (w, sw) = (w1, sw1)"
    by (cases "register_scheme p schemes x (w, sw)")
  show ?case
    using Cons.IH [of w1 sw1] register_scheme_is_ready [of p schemes x w sw] step by simp
qed

lemma fold_register_scheme_standard:
  "g_standard_schemes (fst (fold (register_scheme p schemes) xs (w, sw))) =
     (if standard p \<and> xs \<noteq> [] then schemes else g_standard_schemes w)"
proof (induction xs arbitrary: w sw)
  case Nil
  then show ?case by simp
next
  case (Cons x xs)
  obtain w1 sw1 where step: "register_scheme p schemes x (w, sw) = (w1, sw1)"
    by (cases "register_scheme p schemes x (w, sw)")
  show ?case
    using Cons.IH [of w1 sw1] register_scheme_standard [of p schemes x w sw] step by simp
qed

section \<open>The loop over the switches\<close>

lemma fold_AppendSwitchASCII:
  "fold (\<lambda>switch. AppendSwitchASCII switch v) xs w =
     w\<lparr>command_line := command_line w @ map (\<lambda>n. (n, v)) xs\<rparr>"
  by (induction xs arbitrary: w) (simp_all add: AppendSwitchASCII_def)

lemma RegisterSchemesAsPrivileged_command_line:
  "\<exists>sw. distinct sw \<and> set sw = final_switches (read_options args) schemes \<and>
     command_line (RegisterSchemesAsPrivileged bucket schemes args w) =
       command_line w @ map (\<lambda>n. (n, JoinString schemes '','')) sw"
proof -
  define p where "p = read_options args"
  obtain w1 sw1 where loop: "fold (register_scheme p schemes) schemes (w, []) = (w1, sw1)"
    by (cases "fold (register_scheme p schemes) schemes (w, [])")
  have d1: "distinct sw1"
    and s1: "set sw1 = (if schemes = [] then {} else loop_switches p)"
    using fold_register_scheme_switches [of "[]" p schemes schemes w] loop by simp_all
  have c1: "command_line w1 = command_line w"
    using fold_register_scheme_command_line [of p schemes schemes w "[]"] loop by simp
  define sw2 where
    "sw2 = (if allowServiceWorkers p then unordered_set_insert kServiceWorkerSchemes sw1 else sw1)"
  have d2: "distinct sw2"
    using d1 by (simp add: sw2_def distinct_unordered_set_insert)
  have s2: "set sw2 = final_switches p schemes"
    using s1 by (auto simp: sw2_def final_switches_def set_unordered_set_insert)
  have "command_line (RegisterSchemesAsPrivileged bucket schemes args w) =
          command_line w @ map (\<lambda>n. (n, JoinString schemes '','')) (sort_key bucket sw2)"
    using loop c1
    by (simp add: RegisterSchemesAsPrivileged_def p_def [symmetric] sw2_def
        unordered_set_iterate_def fold_AppendSwitchASCII SetCustomServiceWorkerSchemes_def)
  then show ?thesis
    using d2 s2 unfolding p_def
    by (intro exI [of _ "sort_key bucket sw2"]) simp
qed

lemma filter_name_distinct:
  "distinct sw \<Longrightarrow>
   map snd (filter (\<lambda>x. fst x = name) (map (\<lambda>n. (n, v)) sw)) =
     (if name \<in> set sw then [v] else [])"
  by (induction sw) auto

lemma RegisterSchemesAsPrivileged_switch_values:
  "switch_values name (RegisterSchemesAsPrivileged bucket schemes args w) =
     switch_values name w @
       (if name \<in> final_switches (read_options args) schemes
        then [JoinString schemes '',''] else [])"
proof -
  obtain sw where sw: "distinct sw" "set sw = final_switches (read_options args) schemes"
    "command_line (RegisterSchemesAsPrivileged bucket schemes args w) =
       command_line w @ map (\<lambda>n. (n, JoinString schemes '','')) sw"
    using RegisterSchemesAsPrivileged_command_line by blast
  show ?thesis
    using filter_name_distinct [OF sw(1), of name "JoinString schemes '',''"] sw(2,3)
    by (simp add: switch_values_def)
qed

lemma RegisterSchemesAsPrivileged_is_ready:
  "is_ready (RegisterSchemesAsPrivileged bucket schemes args w) = is_ready w"
proof -
  define p where "p = read_options args"
  obtain w1 sw1 where loop: "fold (register_scheme p schemes) schemes (w, []) = (w1, sw1)"
    by (cases "fold (register_scheme p schemes) schemes (w, [])")
  have "is_ready w1 = is_ready w"
    using fold_register_scheme_is_ready [of p schemes schemes w "[]"] loop by simp
  then show ?thesis
    using loop
    by (simp add: RegisterSchemesAsPrivileged_def p_def [symmetric]
        fold_AppendSwitchASCII SetCustomServiceWorkerSchemes_def)
qed

lemma RegisterSchemesAsPrivileged_standard:
  "g_standard_schemes (RegisterSchemesAsPrivileged bucket schemes args w) =
     (if standard (read_options args) \<and> schemes \<noteq> [] then schemes else g_standard_schemes w)"
proof -
  define p where "p = read_options args"
  obtain w1 sw1 where loop: "fold (register_scheme p schemes) schemes (w, []) = (w1, sw1)"
    by (cases "fold (register_scheme p schemes) schemes (w, [])")
  have "g_standard_schemes w1 =
          (if standard p \<and> schemes \<noteq> [] then schemes else g_standard_schemes w)"
    using fold_register_scheme_standard [of p schemes schemes w "[]"] loop by simp
  then show ?thesis
    using loop
    by (simp add: RegisterSchemesAsPrivileged_def p_def [symmetric]
        fold_AppendSwitchASCII SetCustomServiceWorkerSchemes_def)
qed

section \<open>The options\<close>

lemma read_options_object:
  "read_options [V8Object opts] =
     \<lparr>standard = (opts ''standard'' \<noteq> Some False),
      secure = (opts ''secure'' \<noteq> Some False),
      bypassCSP = (opts ''bypassCSP'' \<noteq> Some False),
      allowServiceWorkers = (opts ''allowServiceWorkers'' \<noteq> Some False),
      supportFetchAPI = (opts ''supportFetchAPI'' \<noteq> Some False),
      corsEnabled = (opts ''corsEnabled'' \<noteq> Some False)\<rparr>"
  by (auto simp: read_options_def Get_def Let_def split: option.splits)

lemma read_options_omitted:
  "read_options [] =
     \<lparr>standard = True, secure = True, bypassCSP = True, allowServiceWorkers = True,
      supportFetchAPI = True, corsEnabled = True\<rparr>"
  by (simp add: read_options_def)

section \<open>Claims about the registration of privileged schemes\<close>

text \<open>
  C1. When \<open>registerSchemesAsPrivileged\<close> is called after the application is ready, it
  throws "protocol.registerSchemesAsPrivileged should be called before app is ready"
  and changes nothing: the state afterwards is the state before, so no switch has been
  appended to the command line, the list of standard schemes is the same, and no call
  to the URL parser or the security policy has been made.
\<close>

theorem registerSchemesAsPrivileged_after_ready:
  "is_ready w \<Longrightarrow>
   RegisterSchemesAsPrivileged_binding bucket schemes args w =
     (Some ''protocol.registerSchemesAsPrivileged should be called before app is ready'', w)"
  by (simp add: RegisterSchemesAsPrivileged_binding_def)

theorem registerSchemesAsPrivileged_after_ready_witness:
  "is_ready (fresh_world\<lparr>is_ready := True\<rparr>) \<and>
   RegisterSchemesAsPrivileged_binding length [''late''] ([] :: unit v8_value list)
       (fresh_world\<lparr>is_ready := True\<rparr>) =
     (Some ''protocol.registerSchemesAsPrivileged should be called before app is ready'',
      \<lparr>is_ready = True, g_standard_schemes = [], calls = [],
       custom_service_worker_schemes = [], command_line = []\<rparr>)"
  using registerSchemesAsPrivileged_after_ready
    [of "fresh_world\<lparr>is_ready := True\<rparr>" length "[''late'']" "[] :: unit v8_value list"]
  by (simp add: fresh_world_def)

text \<open>
  C2. A call \<open>registerSchemesAsPrivileged([s], o)\<close> before the application is ready
  succeeds, and for each privilege class whose flag is true in \<open>o\<close> it appends to the
  command line exactly one switch of the name of that class, with the value \<open>s\<close>: the
  values of the switches of that name are the values there were before, followed by
  \<open>s\<close>. For a list of several schemes the value is the schemes joined by commas, in the
  order of the list. When the options are omitted, all six switches are appended.
  Options other than the six are ignored: two option objects that agree on the six
  flags give the same result. This holds for every order in which the set of switches
  is iterated.
\<close>

theorem registerSchemesAsPrivileged_appends_switches:
  assumes "\<not> is_ready w"
  shows "(\<exists>w'. RegisterSchemesAsPrivileged_binding bucket [s]
                 [V8Object opts :: 'c v8_value] w = (None, w') \<and>
            (\<forall>(key, name) \<in> set privilege_switches. opts key = Some True \<longrightarrow>
               switch_values name w' = switch_values name w @ [s]))
       \<and> (schemes \<noteq> [] \<longrightarrow>
            (\<exists>w'. RegisterSchemesAsPrivileged_binding bucket schemes
                    [V8Object opts :: 'c v8_value] w = (None, w') \<and>
               (\<forall>(key, name) \<in> set privilege_switches. opts key = Some True \<longrightarrow>
                  switch_values name w' =
                    switch_values name w @ [JoinString schemes '',''])))
       \<and> JoinString (x # y # ys) '','' = x @ '','' @ JoinString (y # ys) '',''
       \<and> (schemes \<noteq> [] \<longrightarrow>
            (\<exists>w'. RegisterSchemesAsPrivileged_binding bucket schemes
                    ([] :: 'c v8_value list) w = (None, w') \<and>
               (\<forall>(key, name) \<in> set privilege_switches.
                  switch_values name w' =
                    switch_values name w @ [JoinString schemes '',''])))
       \<and> ((\<forall>(key, name) \<in> set privilege_switches. opts key = opts' key) \<longrightarrow>
            RegisterSchemesAsPrivileged_binding bucket schemes [V8Object opts :: 'c v8_value] w =
            RegisterSchemesAsPrivileged_binding bucket schemes [V8Object opts' :: 'c v8_value] w)"
proof -
  have with_options:
    "\<exists>w'. RegisterSchemesAsPrivileged_binding bucket xs
             [V8Object opts :: 'c v8_value] w = (None, w') \<and>
        (\<forall>(key, name) \<in> set privilege_switches. opts key = Some True \<longrightarrow>
           switch_values name w' = switch_values name w @ [JoinString xs '',''])"
    if "xs \<noteq> []" for xs
    using assms that
    by (simp add: RegisterSchemesAsPrivileged_binding_def privilege_switches_def
        RegisterSchemesAsPrivileged_switch_values final_switches_def loop_switches_def
        read_options_object)
  have single:
    "\<exists>w'. RegisterSchemesAsPrivileged_binding bucket [s]
             [V8Object opts :: 'c v8_value] w = (None, w') \<and>
        (\<forall>(key, name) \<in> set privilege_switches. opts key = Some True \<longrightarrow>
           switch_values name w' = switch_values name w @ [s])"
    using with_options [of "[s]"] by simp
  have omitted:
    "\<exists>w'. RegisterSchemesAsPrivileged_binding bucket schemes
             ([] :: 'c v8_value list) w = (None, w') \<and>
        (\<forall>(key, name) \<in> set privilege_switches.
           switch_values name w' = switch_values name w @ [JoinString schemes '',''])"
    if "schemes \<noteq> []"
    using assms that
    by (simp add: RegisterSchemesAsPrivileged_binding_def privilege_switches_def
        RegisterSchemesAsPrivileged_switch_values final_switches_def loop_switches_def
        read_options_omitted)
  have ignored:
    "RegisterSchemesAsPrivileged_binding bucket schemes [V8Object opts :: 'c v8_value] w =
     RegisterSchemesAsPrivileged_binding bucket schemes [V8Object opts' :: 'c v8_value] w"
    if agree: "\<forall>(key, name) \<in> set privilege_switches. opts key = opts' key"
  proof -
    have "read_options [V8Object opts :: 'c v8_value] =
          read_options [V8Object opts' :: 'c v8_value]"
      using agree by (simp add: privilege_switches_def read_options_object)
    then show ?thesis
      by (simp add: RegisterSchemesAsPrivileged_binding_def RegisterSchemesAsPrivileged_def)
  qed
  have joined: "JoinString (x # y # ys) '','' = x @ '','' @ JoinString (y # ys) '',''"
    by simp
  show ?thesis
    using single with_options [of schemes] omitted ignored joined by blast
qed

theorem registerSchemesAsPrivileged_appends_switches_witness:
  "\<not> is_ready fresh_world \<and> [''x'', ''y''] \<noteq> ([] :: string list) \<and>
   switch_values kSecureSchemes
     (snd (RegisterSchemesAsPrivileged_binding length [''app'']
        [V8Object [''standard'' \<mapsto> False, ''secure'' \<mapsto> True] :: unit v8_value] fresh_world))
     = [''app''] \<and>
   switch_values kSecureSchemes
     (snd (RegisterSchemesAsPrivileged_binding length [''x'', ''y'']
        [V8Object [''standard'' \<mapsto> False, ''secure'' \<mapsto> True] :: unit v8_value] fresh_world))
     = [''x,y''] \<and>
   switch_values kFetchSchemes
     (snd (RegisterSchemesAsPrivileged_binding length [''x'', ''y'']
        ([] :: unit v8_value list) fresh_world))
     = [''x,y''] \<and>
   RegisterSchemesAsPrivileged_binding length [''x'', ''y'']
        [V8Object [''standard'' \<mapsto> False, ''secure'' \<mapsto> True] :: unit v8_value] fresh_world =
   RegisterSchemesAsPrivileged_binding length [''x'', ''y'']
        [V8Object [''standard'' \<mapsto> False, ''secure'' \<mapsto> True, ''colour'' \<mapsto> True]
           :: unit v8_value] fresh_world"
proof -
  let ?opts = "[''standard'' \<mapsto> False, ''secure'' \<mapsto> True] :: string \<rightharpoonup> bool"
  let ?opts' = "[''standard'' \<mapsto> False, ''secure'' \<mapsto> True, ''colour'' \<mapsto> True]
                  :: string \<rightharpoonup> bool"
  have ready: "\<not> is_ready fresh_world"
    by (simp add: fresh_world_def)
  have nonempty: "[''x'', ''y''] \<noteq> ([] :: string list)"
    by simp
  have secure_on: "?opts ''secure'' = Some True"
    by simp
  have agree: "\<forall>(key, name) \<in> set privilege_switches. ?opts key = ?opts' key"
    by (simp add: privilege_switches_def)
  have before: "switch_values name fresh_world = []" for name
    by (simp add: switch_values_def fresh_world_def)
  note inst = registerSchemesAsPrivileged_appends_switches
    [OF ready, where bucket = length and opts = ?opts and opts' = ?opts'
      and s = "''app''" and schemes = "[''x'', ''y'']" and 'c = unit]
  from inst obtain w1 where
    call1: "RegisterSchemesAsPrivileged_binding length [''app'']
             [V8Object ?opts :: unit v8_value] fresh_world = (None, w1)"
    and each1: "\<forall>(key, name) \<in> set privilege_switches. ?opts key = Some True \<longrightarrow>
           switch_values name w1 = switch_values name fresh_world @ [''app'']"
    by blast
  have first: "switch_values kSecureSchemes
     (snd (RegisterSchemesAsPrivileged_binding length [''app'']
        [V8Object ?opts :: unit v8_value] fresh_world)) = [''app'']"
    using each1 call1 secure_on by (simp add: privilege_switches_def before)
  from inst nonempty obtain w2 where
    call2: "RegisterSchemesAsPrivileged_binding length [''x'', ''y'']
             [V8Object ?opts :: unit v8_value] fresh_world = (None, w2)"
    and each2: "\<forall>(key, name) \<in> set privilege_switches. ?opts key = Some True \<longrightarrow>
           switch_values name w2 =
             switch_values name fresh_world @ [JoinString [''x'', ''y''] '','']"
    by blast
  have second: "switch_values kSecureSchemes
     (snd (RegisterSchemesAsPrivileged_binding length [''x'', ''y'']
        [V8Object ?opts :: unit v8_value] fresh_world)) = [''x,y'']"
    using each2 call2 secure_on by (simp add: privilege_switches_def before)
  from inst nonempty obtain w3 where
    call3: "RegisterSchemesAsPrivileged_binding length [''x'', ''y'']
             ([] :: unit v8_value list) fresh_world = (None, w3)"
    and each3: "\<forall>(key, name) \<in> set privilege_switches.
           switch_values name w3 =
             switch_values name fresh_world @ [JoinString [''x'', ''y''] '','']"
    by blast
  have third: "switch_values kFetchSchemes
     (snd (RegisterSchemesAsPrivileged_binding length [''x'', ''y'']
        ([] :: unit v8_value list) fresh_world)) = [''x,y'']"
    using each3 call3 by (simp add: privilege_switches_def before)
  have fourth: "RegisterSchemesAsPrivileged_binding length [''x'', ''y'']
        [V8Object ?opts :: unit v8_value] fresh_world =
      RegisterSchemesAsPrivileged_binding length [''x'', ''y'']
        [V8Object ?opts' :: unit v8_value] fresh_world"
    using inst agree by blast
  show ?thesis
    using ready first second third fourth by simp
qed

text \<open>
  C3. After two calls to \<open>registerSchemesAsPrivileged\<close> before the application is
  ready, both with the standard flag true, the first with the schemes \<open>L1\<close> and the
  second with the schemes \<open>L2\<close>, where \<open>L2\<close> is not empty, \<open>getStandardSchemes()\<close>
  returns exactly \<open>L2\<close>: the second call replaces the list, it does not add to it.
  The list is assigned in the body of the loop over the schemes (line 72), so a second
  call with no scheme leaves the list of the first call in place: after
  \<open>registerSchemesAsPrivileged(["a"])\<close> and \<open>registerSchemesAsPrivileged([])\<close> the list is
  \<open>["a"]\<close>, not \<open>[]\<close>.
\<close>

theorem getStandardSchemes_two_calls:
  assumes "\<not> is_ready w"
    and "standard (read_options args1)" and "standard (read_options args2)"
    and "L2 \<noteq> []"
  shows "\<exists>w1 w2. RegisterSchemesAsPrivileged_binding bucket1 L1 args1 w = (None, w1) \<and>
           RegisterSchemesAsPrivileged_binding bucket2 L2 args2 w1 = (None, w2) \<and>
           GetStandardSchemes w2 = L2"
  using assms
  by (simp add: RegisterSchemesAsPrivileged_binding_def RegisterSchemesAsPrivileged_is_ready
      RegisterSchemesAsPrivileged_standard GetStandardSchemes_def)

theorem getStandardSchemes_two_calls_counterexample:
  "\<not> is_ready fresh_world \<and>
   standard (read_options ([] :: unit v8_value list)) \<and>
   fst (RegisterSchemesAsPrivileged_binding length [''a''] ([] :: unit v8_value list)
          fresh_world) = None \<and>
   fst (RegisterSchemesAsPrivileged_binding length [] ([] :: unit v8_value list)
          (snd (RegisterSchemesAsPrivileged_binding length [''a''] ([] :: unit v8_value list)
                  fresh_world))) = None \<and>
   GetStandardSchemes
     (snd (RegisterSchemesAsPrivileged_binding length [] ([] :: unit v8_value list)
        (snd (RegisterSchemesAsPrivileged_binding length [''a''] ([] :: unit v8_value list)
                fresh_world)))) = [''a''] \<and>
   [''a''] \<noteq> ([] :: string list)"
  by (simp add: RegisterSchemesAsPrivileged_binding_def RegisterSchemesAsPrivileged_is_ready
      RegisterSchemesAsPrivileged_standard GetStandardSchemes_def read_options_omitted
      fresh_world_def)

theorem getStandardSchemes_two_calls_witness:
  "\<not> is_ready fresh_world \<and>
   standard (read_options ([] :: unit v8_value list)) \<and>
   standard (read_options [V8Object [''secure'' \<mapsto> False] :: unit v8_value]) \<and>
   [''x'', ''y''] \<noteq> ([] :: string list) \<and>
   GetStandardSchemes
     (snd (RegisterSchemesAsPrivileged_binding length [''x'', ''y'']
        [V8Object [''secure'' \<mapsto> False] :: unit v8_value]
        (snd (RegisterSchemesAsPrivileged_binding length [''a''] ([] :: unit v8_value list)
                fresh_world)))) = [''x'', ''y'']"
proof -
  have ready: "\<not> is_ready fresh_world"
    by (simp add: fresh_world_def)
  have std1: "standard (read_options ([] :: unit v8_value list))"
    by (simp add: read_options_omitted)
  have std2: "standard (read_options [V8Object [''secure'' \<mapsto> False] :: unit v8_value])"
    by (simp add: read_options_object)
  have nonempty: "[''x'', ''y''] \<noteq> ([] :: string list)"
    by simp
  from getStandardSchemes_two_calls [OF ready std1 std2 nonempty, of length "[''a'']" length]
  obtain w1 w2 where
    "RegisterSchemesAsPrivileged_binding length [''a''] ([] :: unit v8_value list) fresh_world
       = (None, w1)"
    "RegisterSchemesAsPrivileged_binding length [''x'', ''y'']
       [V8Object [''secure'' \<mapsto> False] :: unit v8_value] w1 = (None, w2)"
    "GetStandardSchemes w2 = [''x'', ''y'']"
    by blast
  then show ?thesis
    using ready std1 std2 by simp
qed

text \<open>
  C10. A call of \<open>registerSchemesAsPrivileged\<close> with no scheme and no options, before the
  application is ready, does nothing of what is done per scheme: the list of standard
  schemes stays as it was, no call is made to the URL parser or the security policy, and
  no standard, secure, CSP-bypass, CORS or fetch switch is appended. It still replaces
  the service-worker schemes by the empty list and appends the service-worker switch
  with an empty value, and that is the only switch it appends.
\<close>

theorem registerSchemesAsPrivileged_empty_list:
  "\<not> is_ready w \<Longrightarrow>
   RegisterSchemesAsPrivileged_binding bucket [] ([] :: 'c v8_value list) w =
     (None, w\<lparr>custom_service_worker_schemes := [],
              command_line := command_line w @ [(kServiceWorkerSchemes, [])]\<rparr>)"
  by (simp add: RegisterSchemesAsPrivileged_binding_def RegisterSchemesAsPrivileged_def
      read_options_omitted unordered_set_insert_def unordered_set_iterate_def
      SetCustomServiceWorkerSchemes_def AppendSwitchASCII_def)

theorem registerSchemesAsPrivileged_empty_list_witness:
  "\<not> is_ready (fresh_world\<lparr>g_standard_schemes := [''a''],
                            custom_service_worker_schemes := [''a'']\<rparr>) \<and>
   RegisterSchemesAsPrivileged_binding length [] ([] :: unit v8_value list)
       (fresh_world\<lparr>g_standard_schemes := [''a''],
                    custom_service_worker_schemes := [''a'']\<rparr>) =
     (None, \<lparr>is_ready = False, g_standard_schemes = [''a''], calls = [],
             custom_service_worker_schemes = [],
             command_line = [(''service-worker-schemes'', [])]\<rparr>)"
proof -
  let ?w = "fresh_world\<lparr>g_standard_schemes := [''a''],
                        custom_service_worker_schemes := [''a'']\<rparr>"
  have ready: "\<not> is_ready ?w"
    by (simp add: fresh_world_def)
  show ?thesis
    using ready registerSchemesAsPrivileged_empty_list [OF ready, of length, where 'c = unit]
    by (simp add: fresh_world_def kServiceWorkerSchemes_def)
qed

section \<open>Claims about the protocol controller\<close>

lemma UnregisterProtocolInIO_registered:
  "HasProtocolHandler jf s \<Longrightarrow>
   UnregisterProtocolInIO jf s = (PROTOCOL_OK, jf\<lparr>registered := (registered jf)(s := None)\<rparr>)"
  by (simp add: UnregisterProtocolInIO_def SetProtocolHandler_def)

lemma UnregisterProtocolInIO_not_registered:
  "\<not> HasProtocolHandler jf s \<Longrightarrow> UnregisterProtocolInIO jf s = (PROTOCOL_NOT_REGISTERED, jf)"
  by (simp add: UnregisterProtocolInIO_def)

lemma UninterceptProtocolInIO_eq:
  "UninterceptProtocolInIO jf s =
     (if fst (UninterceptProtocol jf s) then PROTOCOL_OK else PROTOCOL_NOT_INTERCEPTED,
      snd (UninterceptProtocol jf s))"
  by (simp add: UninterceptProtocolInIO_def split_def)

lemma Protocol_UninterceptProtocol_eq:
  "Protocol_UninterceptProtocol s args jf =
     (snd (UninterceptProtocol jf s),
      OnIOCompleted (GetNext_Callback args)
        (if fst (UninterceptProtocol jf s) then PROTOCOL_OK else PROTOCOL_NOT_INTERCEPTED))"
  by (simp add: Protocol_UninterceptProtocol_def UninterceptProtocolInIO_eq)

lemma UninterceptProtocol_twice:
  "\<not> fst (UninterceptProtocol (snd (UninterceptProtocol jf s)) s)"
  by (simp add: UninterceptProtocol_def)

lemma OnIOCompleted_not_intercepted:
  "OnIOCompleted (Some c) PROTOCOL_NOT_INTERCEPTED =
     [(c, Error ''The scheme has not been intercepted'')]"
  by (simp add: OnIOCompleted_def ErrorCodeToString_def status_codes)

lemma OnIOCompleted_ok: "OnIOCompleted (Some c) PROTOCOL_OK = [(c, Null)]"
  by (simp add: OnIOCompleted_def)

text \<open>
  C4. \<open>unregisterProtocol(s)\<close> gives the status \<open>PROTOCOL_OK\<close> if and only if the job
  factory had a handler for \<open>s\<close>. In that case the job factory it leaves is the one
  before with the handler of \<open>s\<close> removed, and it has no handler for \<open>s\<close> any more.
  Otherwise the status is \<open>PROTOCOL_NOT_REGISTERED\<close> and the job factory is unchanged.
  A completion callback is run with null in the first case and with the error "The
  scheme has not been registered" in the second.
\<close>

theorem unregisterProtocol_status:
  "(fst (UnregisterProtocolInIO jf s) = PROTOCOL_OK \<longleftrightarrow> HasProtocolHandler jf s)
   \<and> (HasProtocolHandler jf s \<longrightarrow>
        UnregisterProtocolInIO jf s =
          (PROTOCOL_OK, jf\<lparr>registered := (registered jf)(s := None)\<rparr>)
        \<and> \<not> HasProtocolHandler (snd (UnregisterProtocolInIO jf s)) s)
   \<and> (\<not> HasProtocolHandler jf s \<longrightarrow>
        UnregisterProtocolInIO jf s = (PROTOCOL_NOT_REGISTERED, jf))
   \<and> UnregisterProtocol s (V8Function cb d # rest) jf =
       (snd (UnregisterProtocolInIO jf s),
        [(cb, if HasProtocolHandler jf s then Null
              else Error ''The scheme has not been registered'')])"
proof (cases "HasProtocolHandler jf s")
  case True
  note io = UnregisterProtocolInIO_registered [OF True]
  show ?thesis
    using True
    by (simp add: io UnregisterProtocol_def OnIOCompleted_def HasProtocolHandler_def)
next
  case False
  note io = UnregisterProtocolInIO_not_registered [OF False]
  show ?thesis
    using False
    by (simp add: io UnregisterProtocol_def OnIOCompleted_def ErrorCodeToString_def status_codes)
qed

theorem unregisterProtocol_status_witness:
  "HasProtocolHandler example_factory ''app'' \<and>
   \<not> HasProtocolHandler example_factory ''foo'' \<and>
   UnregisterProtocolInIO example_factory ''app'' =
     (PROTOCOL_OK, example_factory\<lparr>registered := Map.empty\<rparr>) \<and>
   UnregisterProtocolInIO example_factory ''foo'' = (PROTOCOL_NOT_REGISTERED, example_factory) \<and>
   snd (UnregisterProtocol ''foo'' [V8Function (7 :: nat) Map.empty] example_factory) =
     [(7, Error ''The scheme has not been registered'')] \<and>
   snd (UnregisterProtocol ''app'' [V8Function (7 :: nat) Map.empty] example_factory) =
     [(7, Null)]"
proof -
  have yes: "HasProtocolHandler example_factory ''app''"
    by (simp add: HasProtocolHandler_def example_factory_def)
  have no: "\<not> HasProtocolHandler example_factory ''foo''"
    by (simp add: HasProtocolHandler_def example_factory_def)
  have upd: "example_factory\<lparr>registered := (registered example_factory)(''app'' := None)\<rparr> =
        example_factory\<lparr>registered := Map.empty\<rparr>"
    by (simp add: example_factory_def)
  show ?thesis
    using yes no upd
      unregisterProtocol_status [of example_factory "''app''" "7 :: nat" Map.empty "[]"]
      unregisterProtocol_status [of example_factory "''foo''" "7 :: nat" Map.empty "[]"]
    by simp
qed

text \<open>
  C5. \<open>uninterceptProtocol(s)\<close> gives the status \<open>PROTOCOL_OK\<close> if and only if
  \<open>UninterceptProtocol(s)\<close> of the job factory reports that it removed an override;
  otherwise the status is \<open>PROTOCOL_NOT_INTERCEPTED\<close>. The job factory it leaves is the
  one \<open>UninterceptProtocol\<close> leaves. A completion callback is run with null in the first
  case and with the error "The scheme has not been intercepted" in the second; a
  second \<open>uninterceptProtocol\<close> of the same scheme always gets that error.
\<close>

theorem uninterceptProtocol_status:
  "(fst (UninterceptProtocolInIO jf s) = PROTOCOL_OK \<longleftrightarrow> fst (UninterceptProtocol jf s))
   \<and> (\<not> fst (UninterceptProtocol jf s) \<longrightarrow>
        fst (UninterceptProtocolInIO jf s) = PROTOCOL_NOT_INTERCEPTED)
   \<and> snd (UninterceptProtocolInIO jf s) = snd (UninterceptProtocol jf s)
   \<and> Protocol_UninterceptProtocol s (V8Function cb d # rest) jf =
       (snd (UninterceptProtocol jf s),
        [(cb, if fst (UninterceptProtocol jf s) then Null
              else Error ''The scheme has not been intercepted'')])
   \<and> snd (Protocol_UninterceptProtocol s (V8Function cb d # rest)
            (fst (Protocol_UninterceptProtocol s args jf))) =
       [(cb, Error ''The scheme has not been intercepted'')]"
proof (intro conjI)
  show "fst (UninterceptProtocolInIO jf s) = PROTOCOL_OK \<longleftrightarrow> fst (UninterceptProtocol jf s)"
    by (simp add: UninterceptProtocolInIO_eq status_codes)
  show "\<not> fst (UninterceptProtocol jf s) \<longrightarrow>
        fst (UninterceptProtocolInIO jf s) = PROTOCOL_NOT_INTERCEPTED"
    by (simp add: UninterceptProtocolInIO_eq)
  show "snd (UninterceptProtocolInIO jf s) = snd (UninterceptProtocol jf s)"
    by (simp add: UninterceptProtocolInIO_eq)
  show "Protocol_UninterceptProtocol s (V8Function cb d # rest) jf =
       (snd (UninterceptProtocol jf s),
        [(cb, if fst (UninterceptProtocol jf s) then Null
              else Error ''The scheme has not been intercepted'')])"
    by (simp add: Protocol_UninterceptProtocol_eq OnIOCompleted_ok
        OnIOCompleted_not_intercepted)
  show "snd (Protocol_UninterceptProtocol s (V8Function cb d # rest)
            (fst (Protocol_UninterceptProtocol s args jf))) =
       [(cb, Error ''The scheme has not been intercepted'')]"
    by (simp add: Protocol_UninterceptProtocol_eq UninterceptProtocol_twice
        OnIOCompleted_not_intercepted)
qed

theorem uninterceptProtocol_status_witness:
  "fst (UninterceptProtocol example_factory ''https'') \<and>
   \<not> fst (UninterceptProtocol example_factory ''app'') \<and>
   fst (UninterceptProtocolInIO example_factory ''https'') = PROTOCOL_OK \<and>
   fst (UninterceptProtocolInIO example_factory ''app'') = PROTOCOL_NOT_INTERCEPTED \<and>
   snd (Protocol_UninterceptProtocol ''https'' [V8Function (8 :: nat) Map.empty]
          example_factory) = [(8, Null)] \<and>
   snd (Protocol_UninterceptProtocol ''https'' [V8Function (8 :: nat) Map.empty]
          (fst (Protocol_UninterceptProtocol ''https'' [V8Function (8 :: nat) Map.empty]
                  example_factory))) =
     [(8, Error ''The scheme has not been intercepted'')]"
proof -
  have yes: "fst (UninterceptProtocol example_factory ''https'')"
    by (simp add: UninterceptProtocol_def example_factory_def)
  have no: "\<not> fst (UninterceptProtocol example_factory ''app'')"
    by (simp add: UninterceptProtocol_def example_factory_def)
  note https = uninterceptProtocol_status [of example_factory "''https''" "8 :: nat" Map.empty
      "[]" "[V8Function (8 :: nat) Map.empty]"]
  note app = uninterceptProtocol_status [of example_factory "''app''" "8 :: nat" Map.empty
      "[]" "[]"]
  have a: "fst (UninterceptProtocolInIO example_factory ''https'') = PROTOCOL_OK"
    using https yes by blast
  have b: "fst (UninterceptProtocolInIO example_factory ''app'') = PROTOCOL_NOT_INTERCEPTED"
    using app no by blast
  have c: "snd (Protocol_UninterceptProtocol ''https'' [V8Function (8 :: nat) Map.empty]
             example_factory) = [(8, Null)]"
    using https yes by simp
  have d: "snd (Protocol_UninterceptProtocol ''https'' [V8Function (8 :: nat) Map.empty]
          (fst (Protocol_UninterceptProtocol ''https'' [V8Function (8 :: nat) Map.empty]
                  example_factory))) =
     [(8, Error ''The scheme has not been intercepted'')]"
    using https by blast
  show ?thesis
    using yes no a b c d by blast
qed

text \<open>
  C6. When an operation has completed: without a completion callback nothing is run;
  with one and the status \<open>PROTOCOL_OK\<close> the callback is run once, with null; with one
  and any other status it is run once, with an error whose message is
  \<open>ErrorCodeToString\<close> of the status. For the five failure codes that message is the one
  of the table of errors.
\<close>

theorem OnIOCompleted_reports:
  "OnIOCompleted None error = ([] :: ('c \<times> callback_argument) list)
   \<and> OnIOCompleted (Some c) PROTOCOL_OK = [(c, Null)]
   \<and> (error \<noteq> PROTOCOL_OK \<longrightarrow>
        OnIOCompleted (Some c) error = [(c, Error (ErrorCodeToString error))])
   \<and> ErrorCodeToString PROTOCOL_FAIL = ''Failed to manipulate protocol factory''
   \<and> ErrorCodeToString PROTOCOL_REGISTERED = ''The scheme has been registered''
   \<and> ErrorCodeToString PROTOCOL_NOT_REGISTERED = ''The scheme has not been registered''
   \<and> ErrorCodeToString PROTOCOL_INTERCEPTED = ''The scheme has been intercepted''
   \<and> ErrorCodeToString PROTOCOL_NOT_INTERCEPTED = ''The scheme has not been intercepted''"
  by (simp add: OnIOCompleted_def ErrorCodeToString_def status_codes)

theorem OnIOCompleted_reports_witness:
  "PROTOCOL_REGISTERED \<noteq> PROTOCOL_OK \<and>
   OnIOCompleted (Some (3 :: nat)) PROTOCOL_REGISTERED =
     [(3, Error ''The scheme has been registered'')] \<and>
   OnIOCompleted (None :: nat option) PROTOCOL_REGISTERED = [] \<and>
   OnIOCompleted (Some (3 :: nat)) PROTOCOL_OK = [(3, Null)]"
proof -
  have neq: "PROTOCOL_REGISTERED \<noteq> PROTOCOL_OK"
    by (simp add: status_codes)
  note inst = OnIOCompleted_reports [of PROTOCOL_REGISTERED "3 :: nat"]
  have a: "OnIOCompleted (Some (3 :: nat)) PROTOCOL_REGISTERED =
             [(3, Error (ErrorCodeToString PROTOCOL_REGISTERED))]"
    using inst neq by blast
  have b: "ErrorCodeToString PROTOCOL_REGISTERED = ''The scheme has been registered''"
    using inst by blast
  have c: "OnIOCompleted (None :: nat option) PROTOCOL_REGISTERED = []"
    using inst by blast
  have d: "OnIOCompleted (Some (3 :: nat)) PROTOCOL_OK = [(3, Null)]"
    using inst by blast
  show ?thesis
    using neq a b c d by simp
qed

text \<open>
  C8. \<open>isProtocolHandled(s, cb)\<close> runs the boolean callback exactly once, with the
  answer of the job factory to whether \<open>s\<close> is handled, which is true exactly when a
  handler is registered for \<open>s\<close> or a built-in one exists. The callback takes a boolean,
  so no error is delivered.
\<close>

theorem isProtocolHandled_answer:
  "IsProtocolHandled s cb jf = [(cb, IsHandledProtocol jf s)]
   \<and> (IsHandledProtocol jf s \<longleftrightarrow> registered jf s \<noteq> None \<or> built_in jf s)"
  by (simp add: IsProtocolHandled_def IsProtocolHandledInIO_def IsHandledProtocol_def
      HasProtocolHandler_def)

theorem isProtocolHandled_answer_witness:
  "IsProtocolHandled ''app'' (5 :: nat) example_factory = [(5, True)] \<and>
   IsProtocolHandled ''file'' (5 :: nat) example_factory = [(5, True)] \<and>
   IsProtocolHandled ''foo'' (5 :: nat) example_factory = [(5, False)]"
  using isProtocolHandled_answer [of "''app''" "5 :: nat" example_factory]
    isProtocolHandled_answer [of "''file''" "5 :: nat" example_factory]
    isProtocolHandled_answer [of "''foo''" "5 :: nat" example_factory]
  by (simp add: example_factory_def)

text \<open>
  C9. \<open>ErrorCodeToString\<close> returns a string for every status: for a status that is none
  of the five failure codes, \<open>PROTOCOL_OK\<close> and values outside the enumeration included,
  it returns "Unexpected error". That message is none of the five messages of the
  failure codes.
\<close>

theorem ErrorCodeToString_fallback:
  "(error \<notin> {PROTOCOL_FAIL, PROTOCOL_REGISTERED, PROTOCOL_NOT_REGISTERED,
               PROTOCOL_INTERCEPTED, PROTOCOL_NOT_INTERCEPTED} \<longrightarrow>
      ErrorCodeToString error = ''Unexpected error'')
   \<and> ErrorCodeToString PROTOCOL_OK = ''Unexpected error''
   \<and> ''Unexpected error'' \<notin>
       ErrorCodeToString ` {PROTOCOL_FAIL, PROTOCOL_REGISTERED, PROTOCOL_NOT_REGISTERED,
                            PROTOCOL_INTERCEPTED, PROTOCOL_NOT_INTERCEPTED}"
  by (simp add: ErrorCodeToString_def status_codes)

theorem ErrorCodeToString_fallback_witness:
  "(42 :: int) \<notin> {PROTOCOL_FAIL, PROTOCOL_REGISTERED, PROTOCOL_NOT_REGISTERED,
               PROTOCOL_INTERCEPTED, PROTOCOL_NOT_INTERCEPTED} \<and>
   - 1 \<notin> {PROTOCOL_FAIL, PROTOCOL_REGISTERED, PROTOCOL_NOT_REGISTERED,
               PROTOCOL_INTERCEPTED, PROTOCOL_NOT_INTERCEPTED} \<and>
   ErrorCodeToString 42 = ''Unexpected error'' \<and>
   ErrorCodeToString (- 1) = ''Unexpected error''"
proof -
  have out: "(42 :: int) \<notin> {PROTOCOL_FAIL, PROTOCOL_REGISTERED, PROTOCOL_NOT_REGISTERED,
               PROTOCOL_INTERCEPTED, PROTOCOL_NOT_INTERCEPTED}"
    and neg: "(- 1 :: int) \<notin> {PROTOCOL_FAIL, PROTOCOL_REGISTERED, PROTOCOL_NOT_REGISTERED,
               PROTOCOL_INTERCEPTED, PROTOCOL_NOT_INTERCEPTED}"
    by (simp_all add: status_codes)
  show ?thesis
    using out neg ErrorCodeToString_fallback [of 42] ErrorCodeToString_fallback [of "- 1"]
    by simp
qed

end
